theory Spec2Isabelle
  imports
    Complex_Main
    "HOL-Library.Char_ord"
    "HOL-Library.List_Lexorder"
    "HOL-Library.Product_Lexorder"
    "HOL-Library.Multiset"
    "HOL-Library.AList"
begin

section \<open>The multi-stage GRPO trainer of \<^verbatim>\<open>hivemind_grpo_trainer.py\<close>\<close>

text \<open>
  A shallow embedding of \<^verbatim>\<open>HivemindGRPOTrainer\<close> and of its inner class
  \<^verbatim>\<open>PublishingGRPOTrainer\<close>. Python numbers that the source treats as
  durations or rewards are modelled as \<^typ>\<open>real\<close>, Python integers as \<^typ>\<open>int\<close>,
  dictionaries as association lists in item order, exceptions as values. Everything the
  source obtains from a collaborator (the training framework, the DHT, the clock, the
  dataset provider) enters the model as an argument.
\<close>

subsection \<open>Module constants\<close>

definition MAX_TRAIN_FAILS :: nat where
  "MAX_TRAIN_FAILS = 5"

definition CADENCE_OF_UPDATE_STEPS :: int where
  "CADENCE_OF_UPDATE_STEPS = 4"

subsection \<open>Logging, exceptions, the DHT\<close>

datatype log_level = Debug | Info | Warning | Error

type_synonym log_record = "log_level \<times> string"

text \<open>
  The exception classes the source distinguishes. \<open>KeyboardInterrupt\<close> stands for the
  classes below \<^verbatim>\<open>BaseException\<close> that are not below \<^verbatim>\<open>Exception\<close>: no
  \<^verbatim>\<open>except Exception\<close> clause catches them.
\<close>

datatype exn =
    BlockingIOError
  | EOFError
  | DatasetGenerationError
  | UnboundLocalError
  | RuntimeError
  | KeyboardInterrupt

definition is_Exception :: "exn \<Rightarrow> bool" where
  "is_Exception e = (e \<noteq> KeyboardInterrupt)"

definition is_dht_ipc_error :: "exn \<Rightarrow> bool" where
  "is_dht_ipc_error e = (e = BlockingIOError \<or> e = EOFError)"

text \<open>
  Modelled from the spec: the key builders of \<^verbatim>\<open>hivemind_exp.dht_utils\<close>
  (\<^verbatim>\<open>rewards_key\<close>, \<^verbatim>\<open>leaderboard_key\<close>, \<^verbatim>\<open>node_outputs_key\<close> and the constant
  \<^verbatim>\<open>ROUND_STAGE_NUMBER_KEY\<close>) are imported by the source and are not part of it; the spec
  keys rewards and leaderboards by (round, stage), outputs by node, and the pointer by one
  well-known key. They are kept as free constructors.
\<close>

datatype dht_key =
    ROUND_STAGE_NUMBER_KEY
  | rewards_key int int
  | leaderboard_key int int
  | node_outputs_key string

type_synonym py_dict = "(string \<times> string) list"

datatype dht_value =
    PointerValue int int
  | OutputsValue real py_dict
  | RewardValue real
  | LeaderboardValue "(string \<times> real) list"

text \<open>One call of \<^verbatim>\<open>dht.store(key=..., subkey=..., value=..., expiration_time=...)\<close>.\<close>

record dht_store =
  store_key :: dht_key
  store_subkey :: "string option"
  store_value :: dht_value
  expiration_time :: real

subsection \<open>The node\<close>

text \<open>
  \<^verbatim>\<open>node.rewards\<close> as \<^verbatim>\<open>compute_loss\<close> inspects it: the attribute may be absent, may
  hold something that is neither a list nor a tuple, or holds a sequence of numbers.
\<close>

datatype rewards_attr = NoRewards | NotASequence | RewardSeq "real list"

text \<open>
  Modelled from the spec: \<^verbatim>\<open>HivemindNode\<close> lives in \<^verbatim>\<open>hivemind_exp.hivemind_utils\<close>,
  which the source imports. The fields are the ones the source reads and writes;
  \<open>outputs = None\<close> stands for an absent (or \<^verbatim>\<open>None\<close>) attribute, and \<open>stage_cache\<close> is the
  rolling cache of published stage outputs keyed by round, stage and content hash.
\<close>

record hivemind_node =
  key :: string
  is_coordinator :: bool
  round_num :: int
  stage_num :: int
  out_expiration :: real
  outputs :: "py_dict option"
  rewards :: rewards_attr
  stage_cache :: "((int \<times> int \<times> string) \<times> dht_value) list"

definition put_stage_outputs ::
  "int \<Rightarrow> int \<Rightarrow> string \<Rightarrow> dht_value \<Rightarrow> hivemind_node \<Rightarrow> hivemind_node" where
  "put_stage_outputs r s q_hash v n =
     n\<lparr>stage_cache := ((r, s, q_hash), v) # filter (\<lambda>e. fst e \<noteq> (r, s, q_hash)) (stage_cache n)\<rparr>"

definition clear_stage_cache :: "hivemind_node \<Rightarrow> hivemind_node" where
  "clear_stage_cache n = n\<lparr>stage_cache := []\<rparr>"

subsection \<open>\<^verbatim>\<open>PublishingGRPOTrainer\<close>\<close>

text \<open>
  Both trainer classes hold the same three objects by reference: the node, the DHT and a
  logger. The DHT is the list of \<^verbatim>\<open>store\<close> calls made so far, the logger the list of
  records emitted so far, both oldest first.
\<close>

record swarm_handles =
  node :: hivemind_node
  dht :: "dht_store list"
  logger :: "log_record list"

text \<open>
  The publishing trainer adds the running \<open>stage_rewards\<close> and the framework's
  \<^verbatim>\<open>state.global_step\<close>.
\<close>

record publishing_trainer = swarm_handles +
  stage_rewards :: real
  global_step :: int

text \<open>\<^verbatim>\<open>__init__\<close>: line 49 sets \<^verbatim>\<open>self.stage_rewards = 0.0\<close>.\<close>

definition init_publishing_trainer ::
  "hivemind_node \<Rightarrow> dht_store list \<Rightarrow> log_record list \<Rightarrow> publishing_trainer" where
  "init_publishing_trainer n d l =
     \<lparr>node = n, dht = d, logger = l, stage_rewards = 0, global_step = 0\<rparr>"

text \<open>
  Python's \<^verbatim>\<open>sorted(items, key=k, reverse=True)\<close>: a stable sort in descending key order,
  which CPython performs by reversing, sorting stably in ascending order, and reversing
  again.
\<close>

definition py_sorted_reverse :: "('a \<Rightarrow> 'k::linorder) \<Rightarrow> 'a list \<Rightarrow> 'a list" where
  "py_sorted_reverse k xs = rev (sort_key k (rev xs))"

text \<open>The sort key \<^verbatim>\<open>lambda t: (t[1], t[0])\<close>; tuples compare lexicographically.\<close>

definition leaderboard_sort_key :: "string \<times> real \<Rightarrow> real \<times> string" where
  "leaderboard_sort_key t = (snd t, fst t)"

text \<open>
  \<^verbatim>\<open>publish_leaderboard\<close>. \<open>curr_rewards\<close> is what \<^verbatim>\<open>get_dht_value\<close> returned for the
  rewards key of the node's round and stage: \<open>None\<close>, or the items of the dictionary from
  node key to reward. \<open>dht_time\<close> is the reading of \<^verbatim>\<open>get_dht_time()\<close>.
\<close>

definition publish_leaderboard ::
  "real \<Rightarrow> (string \<times> real) list option \<Rightarrow> publishing_trainer \<Rightarrow> publishing_trainer" where
  "publish_leaderboard dht_time curr_rewards t =
     (let r = round_num (node t); s = stage_num (node t) in
      case curr_rewards of
        Some (i # items) \<Rightarrow>
          (let leaderboard = py_sorted_reverse leaderboard_sort_key (i # items) in
           t\<lparr>dht := dht t @
               [\<lparr>store_key = leaderboard_key r s, store_subkey = None,
                 store_value = LeaderboardValue leaderboard,
                 expiration_time = dht_time + out_expiration (node t)\<rparr>]\<rparr>)
      | _ \<Rightarrow> t\<lparr>logger := logger t @ [(Info, ''Can't retrieve round rewards'')]\<rparr>)"

text \<open>The cadence gate of line 77, for a cadence \<open>N\<close>.\<close>

definition publisher_fires :: "int \<Rightarrow> int \<Rightarrow> bool" where
  "publisher_fires N step = (step mod N = 0)"

text \<open>
  The body of the gate (lines 78 to 107). \<open>md5\<close> is \<^verbatim>\<open>hashlib.md5(...).hexdigest()\<close>,
  \<open>time_now\<close> the reading of \<^verbatim>\<open>time.time()\<close>.
\<close>

definition publish_outputs_and_rewards ::
  "(string \<Rightarrow> string) \<Rightarrow> real \<Rightarrow> real \<Rightarrow> publishing_trainer \<Rightarrow> publishing_trainer" where
  "publish_outputs_and_rewards md5 time_now dht_time t =
     (case outputs (node t) of
        Some (o1 # os) \<Rightarrow>
          (case map_of (o1 # os) ''question'' of
             Some question \<Rightarrow>
               (let q_hash = md5 question;
                    v = OutputsValue time_now (o1 # os);
                    t1 = t\<lparr>dht := dht t @
                           [\<lparr>store_key = node_outputs_key (key (node t)),
                             store_subkey = Some q_hash, store_value = v,
                             expiration_time = dht_time + out_expiration (node t)\<rparr>]\<rparr>;
                    t2 = t1\<lparr>node := put_stage_outputs (round_num (node t1))
                                       (stage_num (node t1)) q_hash v (node t1)\<rparr>;
                    t3 = (case rewards (node t2) of
                            RewardSeq rs \<Rightarrow> t2\<lparr>stage_rewards := stage_rewards t2 + sum_list rs\<rparr>
                          | _ \<Rightarrow> t2\<lparr>logger := logger t2 @
                                   [(Warning, ''node.rewards is not available or not iterable'')]\<rparr>)
                in t3\<lparr>dht := dht t3 @
                       [\<lparr>store_key = rewards_key (round_num (node t3)) (stage_num (node t3)),
                         store_subkey = Some (key (node t3)),
                         store_value = RewardValue (stage_rewards t3),
                         expiration_time = dht_time + out_expiration (node t3)\<rparr>]\<rparr>)
           | None \<Rightarrow> t\<lparr>logger := logger t @
                        [(Warning, ''node.outputs not available or question key missing'')]\<rparr>)
      | _ \<Rightarrow> t\<lparr>logger := logger t @
                 [(Warning, ''node.outputs not available or question key missing'')]\<rparr>)"

text \<open>
  \<^verbatim>\<open>compute_loss\<close>, after the framework's own loss computation: the gated publication,
  then (line 109, at the indentation of the gate itself) the leaderboard.
\<close>

definition compute_loss ::
  "(string \<Rightarrow> string) \<Rightarrow> real \<Rightarrow> real \<Rightarrow> (string \<times> real) list option \<Rightarrow>
     publishing_trainer \<Rightarrow> publishing_trainer" where
  "compute_loss md5 time_now dht_time curr_rewards t =
     (let t1 = (if publisher_fires CADENCE_OF_UPDATE_STEPS (global_step t)
                then publish_outputs_and_rewards md5 time_now dht_time t else t)
      in if is_coordinator (node t1) then publish_leaderboard dht_time curr_rewards t1 else t1)"

subsection \<open>The collaborators of \<^verbatim>\<open>HivemindGRPOTrainer\<close>\<close>

datatype 'a outcome = Returns 'a | Raises exn

datatype metric_value = Number real | Text string

type_synonym metrics = "(string \<times> metric_value) list"

text \<open>
  A train dataset, as far as the source looks at it: \<open>Some n\<close> when it has
  \<^verbatim>\<open>__len__\<close> and holds \<open>n\<close> samples, \<open>None\<close> otherwise (an iterable dataset). The
  inspection block of lines 179 to 243 only writes log records and catches every exception
  it provokes; it is left out.
\<close>

type_synonym dataset = "nat option"

text \<open>
  A stage of \<^verbatim>\<open>stage_data.stages\<close>. The first argument of \<open>datasets_fn\<close> is the number of
  dataset constructions made before this one, so that a provider may answer differently
  when it is asked again.
\<close>

record stage =
  datasets_fn :: "nat \<Rightarrow> int \<Rightarrow> int \<Rightarrow> dataset outcome"

text \<open>
  What the surroundings answer: \<open>train k\<close> is the result of the \<open>k\<close>-th call of
  \<^verbatim>\<open>trainer.train()\<close> of the process (a \<^verbatim>\<open>TrainOutput\<close> with its metrics, \<^verbatim>\<open>None\<close>, or
  an exception), \<open>push_to_hub k\<close> that of the \<open>k\<close>-th hub push, \<open>get_round_and_stage k\<close>
  that of the \<open>k\<close>-th read of the published pointer, \<open>monotonic k\<close> and \<open>get_dht_time k\<close>
  the \<open>k\<close>-th clock reading. \<open>push_to_hub_token\<close> says that
  \<^verbatim>\<open>config.push_to_hub_token is not None\<close>, \<open>distributed_state\<close> that
  \<^verbatim>\<open>config.distributed_state\<close> exists and is not \<^verbatim>\<open>None\<close>.
\<close>

record env =
  stages :: "stage list"
  max_rounds :: int
  train_timeout :: real
  push_to_hub_token :: bool
  distributed_state :: bool
  train :: "nat \<Rightarrow> metrics option outcome"
  push_to_hub :: "nat \<Rightarrow> unit outcome"
  get_round_and_stage :: "nat \<Rightarrow> (int option \<times> int option) outcome"
  monotonic :: "nat \<Rightarrow> real"
  get_dht_time :: "nat \<Rightarrow> real"

datatype save_event =
    LogMetrics metrics
  | SaveMetrics metrics
  | SaveState
  | SaveModel
  | WaitForEveryone
  | SaveTokenizer
  | PushToHub

text \<open>
  The state the orchestrator acts on. Besides the three shared objects: \<open>history\<close>, the
  pair \<^verbatim>\<open>(node.round_num, node.stage_num)\<close> after each assignment to either field, oldest
  first; the number of \<^verbatim>\<open>cleanup()\<close> calls; the arguments of the \<^verbatim>\<open>time.sleep\<close> calls,
  oldest first; the persistence calls; and how often each collaborator has been asked.
\<close>

record world = swarm_handles +
  history :: "(int \<times> int) list"
  cleanup_calls :: nat
  sleeps :: "real list"
  saved :: "save_event list"
  train_calls :: nat
  datasets_calls :: nat
  push_calls :: nat
  polls :: nat
  clock_reads :: nat

definition log_msg :: "log_level \<Rightarrow> string \<Rightarrow> world \<Rightarrow> world" where
  "log_msg lvl msg w = w\<lparr>logger := logger w @ [(lvl, msg)]\<rparr>"

definition sleep :: "real \<Rightarrow> world \<Rightarrow> world" where
  "sleep secs w = w\<lparr>sleeps := sleeps w @ [secs]\<rparr>"

definition set_round_num :: "int \<Rightarrow> world \<Rightarrow> world" where
  "set_round_num r w =
     w\<lparr>node := (node w)\<lparr>round_num := r\<rparr>, history := history w @ [(r, stage_num (node w))]\<rparr>"

definition set_stage_num :: "int \<Rightarrow> world \<Rightarrow> world" where
  "set_stage_num s w =
     w\<lparr>node := (node w)\<lparr>stage_num := s\<rparr>, history := history w @ [(round_num (node w), s)]\<rparr>"

text \<open>
  \<^verbatim>\<open>cleanup\<close> (lines 283 to 297): garbage collection and device caches have no counterpart
  here; the node's stage cache is cleared.
\<close>

definition cleanup :: "world \<Rightarrow> world" where
  "cleanup w = w\<lparr>node := clear_stage_cache (node w), cleanup_calls := Suc (cleanup_calls w)\<rparr>"

subsection \<open>\<^verbatim>\<open>train_stage_and_save\<close>\<close>

text \<open>
  The loop of lines 301 to 320, \<^verbatim>\<open>for attempt in range(max_fails)\<close>, from \<open>attempt\<close> on.
  It yields the value of \<^verbatim>\<open>train_result\<close> when the loop is left by \<^verbatim>\<open>break\<close> or runs out,
  or the exception that leaves it. The two handlers differ in their log records only.
\<close>

function train_attempts ::
  "nat \<Rightarrow> env \<Rightarrow> nat \<Rightarrow> world \<Rightarrow> metrics option outcome \<times> world" where
  "train_attempts max_fails e attempt w =
     (if attempt < max_fails then
        (let w1 = w\<lparr>train_calls := Suc (train_calls w)\<rparr> in
         case train e (train_calls w) of
           Returns train_result \<Rightarrow> (Returns train_result, w1)
         | Raises x \<Rightarrow>
             if is_dht_ipc_error x then
               (let w2 = sleep 5 (cleanup (log_msg Warning ''DHT IPC error'' w1)) in
                if attempt = max_fails - 1
                then (Raises x, log_msg Error ''DHT IPC error: Failed after attempts'' w2)
                else train_attempts max_fails e (Suc attempt) w2)
             else if is_Exception x then
               (let w2 = sleep 5 (cleanup
                           (log_msg Error ''Unexpected error during trainer.train()'' w1)) in
                if attempt = max_fails - 1
                then (Raises x, log_msg Error ''Unexpected error: Failed after attempts'' w2)
                else train_attempts max_fails e (Suc attempt) w2)
             else (Raises x, w1))
      else (Returns None, w))"
  by pat_completeness auto
termination
  by (relation "measure (\<lambda>(max_fails, e, attempt, w). max_fails - attempt)") auto

declare train_attempts.simps [simp del]

definition train_samples :: "dataset \<Rightarrow> metric_value" where
  "train_samples train_dataset =
     (case train_dataset of
        Some n \<Rightarrow> Number (real n)
      | None \<Rightarrow> Text ''unknown (IterableDataset)'')"

text \<open>
  \<^verbatim>\<open>train_stage_and_save\<close> with the retry budget as an argument; the source passes the
  module constant. The result is the exception that leaves the function, if any.
\<close>

definition train_stage_and_save_with ::
  "nat \<Rightarrow> env \<Rightarrow> dataset \<Rightarrow> world \<Rightarrow> exn option \<times> world" where
  "train_stage_and_save_with max_fails e train_dataset w =
     (case train_attempts max_fails e 0 w of
        (Raises x, w1) \<Rightarrow> (Some x, w1)
      | (Returns None, w1) \<Rightarrow>
          (None, log_msg Error ''train_result is None after training attempts'' w1)
      | (Returns (Some m), w1) \<Rightarrow>
          (let metrics = AList.update ''train_samples'' (train_samples train_dataset) m;
               w2 = w1\<lparr>saved := saved w1 @ [LogMetrics metrics, SaveMetrics metrics, SaveState]\<rparr>;
               w3 = log_msg Info ''Saving model'' w2;
               w4 = log_msg Info ''Model saved'' (w3\<lparr>saved := saved w3 @ [SaveModel]\<rparr>);
               w5 = (if distributed_state e
                     then w4\<lparr>saved := saved w4 @ [WaitForEveryone]\<rparr>
                     else log_msg Warning ''distributed_state not found in config or is None'' w4);
               w6 = log_msg Info ''Tokenizer saved'' (w5\<lparr>saved := saved w5 @ [SaveTokenizer]\<rparr>)
           in (None, w6)))"

definition train_stage_and_save :: "env \<Rightarrow> dataset \<Rightarrow> world \<Rightarrow> exn option \<times> world" where
  "train_stage_and_save = train_stage_and_save_with MAX_TRAIN_FAILS"

subsection \<open>\<^verbatim>\<open>train_stages\<close>\<close>

text \<open>Python's \<^verbatim>\<open>xs[start:]\<close>: a negative start counts from the end, and both ends clamp.\<close>

definition py_slice_from :: "'a list \<Rightarrow> int \<Rightarrow> 'a list" where
  "py_slice_from xs start =
     drop (nat (if start < 0 then int (length xs) + start else start)) xs"

text \<open>
  The \<^verbatim>\<open>for\<close> loop of lines 165 to 257 over the remaining stages, \<open>stage_n\<close> being the
  source's \<^verbatim>\<open>stage_num = start_stage + i\<close>.
\<close>

fun stage_loop :: "env \<Rightarrow> bool \<Rightarrow> int \<Rightarrow> int \<Rightarrow> stage list \<Rightarrow> world \<Rightarrow> exn option \<times> world" where
  "stage_loop e coord rnd stage_n [] w = (None, w)"
| "stage_loop e coord rnd stage_n (stg # rest) w =
     (let w1 = set_stage_num stage_n w;
          w2 = (if coord
                then w1\<lparr>dht := dht w1 @
                        [\<lparr>store_key = ROUND_STAGE_NUMBER_KEY, store_subkey = None,
                          store_value = PointerValue (round_num (node w1)) stage_n,
                          expiration_time =
                            get_dht_time e (clock_reads w1) + out_expiration (node w1)\<rparr>],
                       clock_reads := Suc (clock_reads w1)\<rparr>
                else w1);
          w3 = log_msg Info ''Training round and stage'' w2;
          w4 = w3\<lparr>datasets_calls := Suc (datasets_calls w3)\<rparr>
      in case datasets_fn stg (datasets_calls w3) rnd stage_n of
           Raises x \<Rightarrow> (Some x, w4)
         | Returns train_dataset \<Rightarrow>
             (case train_stage_and_save e train_dataset w4 of
                (Some x, w5) \<Rightarrow> (Some x, w5)
              | (None, w5) \<Rightarrow>
                  stage_loop e coord rnd (stage_n + 1) rest
                    (log_msg Info ''Finished training round and stage'' w5)))"

text \<open>
  The hub push of lines 261 to 276. \<open>bound\<close> says that the loop has assigned the local
  variable \<^verbatim>\<open>trainer\<close>; reading it unbound raises \<^verbatim>\<open>UnboundLocalError\<close>, which the
  \<^verbatim>\<open>except Exception\<close> of line 273 catches like any failure of the push.
\<close>

definition push_model :: "env \<Rightarrow> bool \<Rightarrow> world \<Rightarrow> exn option \<times> world" where
  "push_model e bound w =
     (if push_to_hub_token e then
        (let w1 = log_msg Info ''Pushing model to Hugging Face Hub...'' w in
         if \<not> bound then (None, log_msg Info ''Failed to push model to the Hugging Face Hub'' w1)
         else
           (let w2 = w1\<lparr>push_calls := Suc (push_calls w1)\<rparr> in
            case push_to_hub e (push_calls w1) of
              Returns u \<Rightarrow> (None, sleep 1 (w2\<lparr>saved := saved w2 @ [PushToHub]\<rparr>))
            | Raises x \<Rightarrow>
                if is_Exception x
                then (None, log_msg Info ''Failed to push model to the Hugging Face Hub'' w2)
                else (Some x, w2)))
      else (None, w))"

text \<open>
  \<^verbatim>\<open>train_stages\<close>. After the loop: the push, \<^verbatim>\<open>cleanup()\<close>, and \<^verbatim>\<open>del trainer\<close>, which
  raises \<^verbatim>\<open>UnboundLocalError\<close> when the loop body never ran.
\<close>

definition train_stages :: "env \<Rightarrow> int \<Rightarrow> int \<Rightarrow> bool \<Rightarrow> world \<Rightarrow> exn option \<times> world" where
  "train_stages e rnd start_stage coord w =
     (let todo = py_slice_from (stages e) start_stage in
      case stage_loop e coord rnd start_stage todo (set_round_num rnd w) of
        (Some x, w1) \<Rightarrow> (Some x, w1)
      | (None, w1) \<Rightarrow>
          (case push_model e (todo \<noteq> []) w1 of
             (Some x, w2) \<Rightarrow> (Some x, w2)
           | (None, w2) \<Rightarrow>
               (let w3 = cleanup w2 in
                if todo \<noteq> [] then (None, w3) else (Some UnboundLocalError, w3))))"

subsection \<open>The coordinator loop\<close>

text \<open>How a control loop ends; an exception that leaves it reaches \<^verbatim>\<open>train\<close>, which re-raises.\<close>

datatype loop_exit = FinalRound | TimedOut | Propagated exn

text \<open>
  The \<^verbatim>\<open>while\<close> loop of \<^verbatim>\<open>coordinator_train\<close> from round \<open>rnd\<close> on. Python's \<^verbatim>\<open>and\<close>
  reads the clock only when the round test has passed.
\<close>

function coordinator_loop :: "env \<Rightarrow> real \<Rightarrow> int \<Rightarrow> world \<Rightarrow> loop_exit \<times> world" where
  "coordinator_loop e start_time rnd w =
     (if rnd < max_rounds e then
        (let w0 = w\<lparr>clock_reads := Suc (clock_reads w)\<rparr> in
         if monotonic e (clock_reads w) - start_time < train_timeout e then
           (case train_stages e rnd 0 True (log_msg Info ''Starting new round'' w0) of
              (Some x, w1) \<Rightarrow> (Propagated x, w1)
            | (None, w1) \<Rightarrow>
                if rnd + 1 = max_rounds e
                then (FinalRound, log_msg Info ''Coordinator reached max_rounds'' w1)
                else coordinator_loop e start_time (rnd + 1) w1)
         else (TimedOut, log_msg Info ''Training timed out for coordinator!'' w0))
      else (TimedOut, log_msg Info ''Training timed out for coordinator!'' w))"
  by pat_completeness auto
termination
  by (relation "measure (\<lambda>(e, start_time, rnd, w). nat (max_rounds e - rnd))") auto

declare coordinator_loop.simps [simp del]

definition coordinator_train :: "env \<Rightarrow> world \<Rightarrow> loop_exit \<times> world" where
  "coordinator_train e w =
     coordinator_loop e (monotonic e (clock_reads w)) 0 (w\<lparr>clock_reads := Suc (clock_reads w)\<rparr>)"

subsection \<open>The follower loop\<close>

text \<open>The local variables of \<^verbatim>\<open>follower_train\<close>.\<close>

record follower_locals =
  done_rounds :: "int set"
  start_time :: real
  fetch_log_time :: real
  check_backoff :: real

datatype flow = Continue | Return | Raise exn

text \<open>
  The pointer could not be read (lines 396 to 403 and 404 to 412): a debug record at most
  once per \<open>log_timeout\<close>, a sleep of \<open>check_interval\<close>, and the next iteration.
\<close>

definition pointer_unreadable ::
  "real \<Rightarrow> real \<Rightarrow> real \<Rightarrow> follower_locals \<Rightarrow> world \<Rightarrow> flow \<times> follower_locals \<times> world" where
  "pointer_unreadable check_interval log_timeout curr_time l w =
     (if curr_time - fetch_log_time l > log_timeout
      then (Continue, l\<lparr>fetch_log_time := curr_time\<rparr>,
            sleep check_interval (log_msg Debug ''Could not fetch round and stage'' w))
      else (Continue, l, sleep check_interval w))"

text \<open>
  Lines 414 to 437: the round has not been attempted. The restart of line 425 runs inside
  the \<^verbatim>\<open>except\<close> clause, so an exception it raises is not handled by the sibling clause of
  line 430 and leaves the function.
\<close>

definition attempt_round ::
  "env \<Rightarrow> real \<Rightarrow> int \<Rightarrow> int \<Rightarrow> follower_locals \<Rightarrow> world \<Rightarrow> exn option \<times> follower_locals \<times> world" where
  "attempt_round e check_interval rnd stg l w =
     (let finish = (\<lambda>w'. (None, l\<lparr>done_rounds := insert rnd (done_rounds l),
                                   check_backoff := check_interval\<rparr>, w'))
      in case train_stages e rnd stg False (log_msg Info ''Joining round'' w) of
           (None, w1) \<Rightarrow> finish w1
         | (Some x, w1) \<Rightarrow>
             if x = DatasetGenerationError then
               (let w2 = log_msg Warning ''DatasetGenerationError in round'' w1 in
                if stg > 0 then
                  (case train_stages e rnd 0 False
                          (log_msg Info ''Re-attempting training starting at stage 0!'' w2) of
                     (None, w3) \<Rightarrow> finish w3
                   | (Some y, w3) \<Rightarrow> (Some y, l, w3))
                else finish (log_msg Error ''DatasetGenerationError at stage 0. Skipping.'' w2))
             else if is_Exception x then
               finish (log_msg Error ''Unexpected error during train_stages'' w1)
             else (Some x, l, w1))"

text \<open>Lines 438 to 445: the round is in \<open>done_rounds\<close>.\<close>

definition already_done ::
  "real \<Rightarrow> real \<Rightarrow> real \<Rightarrow> follower_locals \<Rightarrow> world \<Rightarrow> follower_locals \<times> world" where
  "already_done log_timeout max_check_interval curr_time l w =
     (let (l1, w1) = (if curr_time - fetch_log_time l > log_timeout
                      then (l\<lparr>fetch_log_time := curr_time\<rparr>,
                            log_msg Info ''Already finished round. Waiting for next round.'' w)
                      else (l, w))
      in (l1\<lparr>check_backoff := min (check_backoff l1 * 2) max_check_interval\<rparr>,
          sleep (check_backoff l1) w1))"

text \<open>One pass through the body of the \<^verbatim>\<open>while\<close> loop (lines 390 to 449).\<close>

definition follower_iteration ::
  "env \<Rightarrow> real \<Rightarrow> real \<Rightarrow> real \<Rightarrow> follower_locals \<Rightarrow> world \<Rightarrow> flow \<times> follower_locals \<times> world" where
  "follower_iteration e check_interval log_timeout max_check_interval l w =
     (let curr_time = monotonic e (clock_reads w);
          w0 = w\<lparr>clock_reads := Suc (clock_reads w), polls := Suc (polls w)\<rparr>
      in case get_round_and_stage e (polls w) of
           Raises x \<Rightarrow>
             if is_Exception x
             then pointer_unreadable check_interval log_timeout curr_time l w0
             else (Raise x, l, w0)
         | Returns (Some rnd, Some stg) \<Rightarrow>
             (let (r, l1, w1) =
                    (if rnd \<notin> done_rounds l
                     then attempt_round e check_interval rnd stg l w0
                     else (let (l', w') = already_done log_timeout max_check_interval curr_time l w0
                           in (None, l', w')))
              in case r of
                   Some x \<Rightarrow> (Raise x, l1, w1)
                 | None \<Rightarrow>
                     if rnd \<ge> max_rounds e - 1
                     then (Return, l1, log_msg Info ''Follower has attempted the final round'' w1)
                     else (Continue, l1, w1))
         | Returns _ \<Rightarrow> pointer_unreadable check_interval log_timeout curr_time l w0)"

text \<open>
  The \<^verbatim>\<open>while\<close> loop of \<^verbatim>\<open>follower_train\<close>. Nothing bounds the number of its iterations
  (the clock is the surroundings'), so the model runs at most \<open>fuel\<close> of them: \<open>None\<close> says
  that the loop is still running after that many.
\<close>

fun follower_loop ::
  "nat \<Rightarrow> env \<Rightarrow> real \<Rightarrow> real \<Rightarrow> real \<Rightarrow> follower_locals \<Rightarrow> world \<Rightarrow>
     loop_exit option \<times> follower_locals \<times> world" where
  "follower_loop 0 e check_interval log_timeout max_check_interval l w = (None, l, w)"
| "follower_loop (Suc fuel) e check_interval log_timeout max_check_interval l w =
     (let w0 = w\<lparr>clock_reads := Suc (clock_reads w)\<rparr> in
      if monotonic e (clock_reads w) - start_time l < train_timeout e then
        (case follower_iteration e check_interval log_timeout max_check_interval l w0 of
           (Continue, l1, w1) \<Rightarrow>
             follower_loop fuel e check_interval log_timeout max_check_interval l1 w1
         | (Return, l1, w1) \<Rightarrow> (Some FinalRound, l1, w1)
         | (Raise x, l1, w1) \<Rightarrow> (Some (Propagated x), l1, w1))
      else (Some TimedOut, l, log_msg Info ''Training timed out for follower!'' w0))"

definition follower_train ::
  "nat \<Rightarrow> env \<Rightarrow> real \<Rightarrow> real \<Rightarrow> real \<Rightarrow> world \<Rightarrow> loop_exit option \<times> follower_locals \<times> world" where
  "follower_train fuel e check_interval log_timeout max_check_interval w =
     (let t0 = monotonic e (clock_reads w) in
      follower_loop fuel e check_interval log_timeout max_check_interval
        \<lparr>done_rounds = {}, start_time = t0, fetch_log_time = t0, check_backoff = check_interval\<rparr>
        (w\<lparr>clock_reads := Suc (clock_reads w)\<rparr>))"

subsection \<open>Notions used to state the properties\<close>

text \<open>
  The guard of line 79: \<^verbatim>\<open>node.outputs\<close> exists, is not empty and has a
  \<^verbatim>\<open>"question"\<close> entry.
\<close>

definition has_question :: "hivemind_node \<Rightarrow> bool" where
  "has_question n =
     (case outputs n of
        None \<Rightarrow> False
      | Some d \<Rightarrow> d \<noteq> [] \<and> map_of d ''question'' \<noteq> None)"

text \<open>The guard of line 95: \<^verbatim>\<open>node.rewards\<close> exists and is a list or a tuple.\<close>

fun reward_seq :: "rewards_attr \<Rightarrow> real list option" where
  "reward_seq (RewardSeq rs) = Some rs"
| "reward_seq NoRewards = None"
| "reward_seq NotASequence = None"

text \<open>
  The ranking the spec asks of a leaderboard: \<open>a\<close> may stand before \<open>b\<close> when its reward is
  higher, or the rewards are equal and its node key is not lower.
\<close>

definition ranked_before :: "string \<times> real \<Rightarrow> string \<times> real \<Rightarrow> bool" where
  "ranked_before a b = (snd b < snd a \<or> (snd a = snd b \<and> fst b \<le> fst a))"

text \<open>
  The traces one call of \<^verbatim>\<open>publish_leaderboard\<close> leaves: a store under a leaderboard
  key, or the record that no rewards could be retrieved. No other code of the source
  produces either.
\<close>

fun is_leaderboard_key :: "dht_key \<Rightarrow> bool" where
  "is_leaderboard_key (leaderboard_key r s) = True"
| "is_leaderboard_key ROUND_STAGE_NUMBER_KEY = False"
| "is_leaderboard_key (rewards_key r s) = False"
| "is_leaderboard_key (node_outputs_key n) = False"

definition leaderboard_calls :: "publishing_trainer \<Rightarrow> nat" where
  "leaderboard_calls t =
     length (filter (\<lambda>s. is_leaderboard_key (store_key s)) (dht t)) +
     length (filter (\<lambda>r. r = (Info, ''Can't retrieve round rewards'')) (logger t))"

text \<open>
  A run of training steps as the publishing trainer sees it. Before each call of
  \<^verbatim>\<open>compute_loss\<close> the reward functions have saved \<^verbatim>\<open>node.outputs\<close> and
  \<^verbatim>\<open>node.rewards\<close> (the comment of line 74) and the framework has set
  \<^verbatim>\<open>state.global_step\<close>; the remaining fields are the readings of the clocks and of the
  rewards key during the call.
\<close>

record step_input =
  in_outputs :: "py_dict option"
  in_rewards :: rewards_attr
  in_global_step :: int
  in_time :: real
  in_dht_time :: real
  in_curr_rewards :: "(string \<times> real) list option"

definition training_step ::
  "(string \<Rightarrow> string) \<Rightarrow> step_input \<Rightarrow> publishing_trainer \<Rightarrow> publishing_trainer" where
  "training_step md5 i t =
     compute_loss md5 (in_time i) (in_dht_time i) (in_curr_rewards i)
       (t\<lparr>node := (node t)\<lparr>outputs := in_outputs i, rewards := in_rewards i\<rparr>,
          global_step := in_global_step i\<rparr>)"

fun training_steps ::
  "(string \<Rightarrow> string) \<Rightarrow> step_input list \<Rightarrow> publishing_trainer \<Rightarrow> publishing_trainer" where
  "training_steps md5 [] t = t"
| "training_steps md5 (i # rest) t = training_steps md5 rest (training_step md5 i t)"

text \<open>The reward a call of \<^verbatim>\<open>compute_loss\<close> adds to the running total.\<close>

definition reward_increment :: "publishing_trainer \<Rightarrow> real" where
  "reward_increment t =
     (if publisher_fires CADENCE_OF_UPDATE_STEPS (global_step t) \<and> has_question (node t)
      then (case reward_seq (rewards (node t)) of Some rs \<Rightarrow> sum_list rs | None \<Rightarrow> 0)
      else 0)"

text \<open>The rewards a step presents do not lower the total.\<close>

definition nonneg_rewards :: "rewards_attr \<Rightarrow> bool" where
  "nonneg_rewards r = (case reward_seq r of Some rs \<Rightarrow> 0 \<le> sum_list rs | None \<Rightarrow> True)"

subsection \<open>Concrete configurations\<close>

definition follower_node :: hivemind_node where
  "follower_node =
     \<lparr>key = ''QmFollower'', is_coordinator = False, round_num = 0, stage_num = 0,
      out_expiration = 14400, outputs = None, rewards = NoRewards, stage_cache = []\<rparr>"

definition coordinator_node :: hivemind_node where
  "coordinator_node = follower_node\<lparr>key := ''QmCoordinator'', is_coordinator := True\<rparr>"

definition answered_node :: hivemind_node where
  "answered_node = follower_node\<lparr>outputs := Some [(''question'', ''What is 2 + 2?'')]\<rparr>"

text \<open>A step that presents a question and the rewards \<open>rs\<close> while the gate is open.\<close>

definition step_with :: "real list \<Rightarrow> step_input" where
  "step_with rs =
     \<lparr>in_outputs = Some [(''question'', ''What is 2 + 2?'')], in_rewards = RewardSeq rs,
      in_global_step = 0, in_time = 0, in_dht_time = 0, in_curr_rewards = None\<rparr>"

section \<open>Verified properties\<close>

subsection \<open>The cadence gate\<close>





subsection \<open>The leaderboard\<close>

lemma ranked_before_key:
  "ranked_before a b \<longleftrightarrow> leaderboard_sort_key b \<le> leaderboard_sort_key a"
  by (auto simp: ranked_before_def leaderboard_sort_key_def less_eq_prod_def)

lemma py_sorted_reverse_desc:
  "sorted_wrt (\<lambda>a b. k b \<le> k a) (py_sorted_reverse k xs)"
proof -
  have "sorted_wrt (\<le>) (map k (sort_key k (rev xs)))" by simp
  then have "sorted_wrt (\<lambda>a b. k a \<le> k b) (sort_key k (rev xs))"
    by (simp add: sorted_wrt_map)
  then show ?thesis
    unfolding py_sorted_reverse_def by (simp add: sorted_wrt_rev)
qed

lemma py_sorted_reverse_mset: "mset (py_sorted_reverse k xs) = mset xs"
  by (simp add: py_sorted_reverse_def)

lemma py_sorted_reverse_cong:
  assumes "mset xs = mset ys" and "inj_on k (set xs)"
  shows "py_sorted_reverse k xs = py_sorted_reverse k ys"
proof -
  have "sort_key k (rev xs) = sort_key k (rev ys)"
    by (rule sort_key_eq_sort_key) (simp_all add: assms)
  then show ?thesis by (simp add: py_sorted_reverse_def)
qed

lemma inj_leaderboard_sort_key: "inj_on leaderboard_sort_key A"
  by (auto simp: inj_on_def leaderboard_sort_key_def prod_eq_iff)

lemma publish_leaderboard_nonempty:
  "items \<noteq> [] \<Longrightarrow>
   publish_leaderboard dht_time (Some items) t =
     t\<lparr>dht := dht t @
         [\<lparr>store_key = leaderboard_key (round_num (node t)) (stage_num (node t)),
           store_subkey = None,
           store_value = LeaderboardValue (py_sorted_reverse leaderboard_sort_key items),
           expiration_time = dht_time + out_expiration (node t)\<rparr>]\<rparr>"
  by (cases items) (simp_all add: publish_leaderboard_def)

lemma publish_leaderboard_none:
  "publish_leaderboard dht_time None t =
     t\<lparr>logger := logger t @ [(Info, ''Can't retrieve round rewards'')]\<rparr>"
  "publish_leaderboard dht_time (Some []) t =
     t\<lparr>logger := logger t @ [(Info, ''Can't retrieve round rewards'')]\<rparr>"
  by (simp_all add: publish_leaderboard_def)

text \<open>
  Claim C7. For every non-empty dictionary of rewards read at the node's round and stage,
  \<^verbatim>\<open>publish_leaderboard\<close> stores, under the leaderboard key of that round and stage, a
  list that holds exactly the items read, ordered by reward descending and, among equal
  rewards, by node key descending. The stored list depends on the contents of the
  dictionary only, not on the order of its items, so that running the aggregation again
  on the same rewards stores the same ranking. When nothing or an empty dictionary was
  read, nothing is stored.
\<close>

theorem leaderboard_ranking:
  assumes "items \<noteq> []"
  shows "dht (publish_leaderboard dht_time (Some items) t) =
           dht t @
           [\<lparr>store_key = leaderboard_key (round_num (node t)) (stage_num (node t)),
             store_subkey = None,
             store_value = LeaderboardValue (py_sorted_reverse leaderboard_sort_key items),
             expiration_time = dht_time + out_expiration (node t)\<rparr>]
       \<and> mset (py_sorted_reverse leaderboard_sort_key items) = mset items
       \<and> sorted_wrt ranked_before (py_sorted_reverse leaderboard_sort_key items)
       \<and> (\<forall>items'. mset items' = mset items \<longrightarrow>
            publish_leaderboard dht_time (Some items') t =
            publish_leaderboard dht_time (Some items) t)
       \<and> dht (publish_leaderboard dht_time None t) = dht t
       \<and> dht (publish_leaderboard dht_time (Some []) t) = dht t"
proof -
  have same: "publish_leaderboard dht_time (Some items') t =
              publish_leaderboard dht_time (Some items) t"
    if m: "mset items' = mset items" for items'
  proof -
    from m assms have ne: "items' \<noteq> []" by auto
    have "py_sorted_reverse leaderboard_sort_key items' =
          py_sorted_reverse leaderboard_sort_key items"
      by (rule py_sorted_reverse_cong [OF m inj_leaderboard_sort_key])
    then show ?thesis
      by (simp add: publish_leaderboard_nonempty [OF ne] publish_leaderboard_nonempty [OF assms])
  qed
  have "sorted_wrt ranked_before (py_sorted_reverse leaderboard_sort_key items)"
    using py_sorted_reverse_desc [of leaderboard_sort_key items]
    by (simp add: ranked_before_key [abs_def])
  with same show ?thesis
    by (simp add: publish_leaderboard_nonempty [OF assms] publish_leaderboard_none
          py_sorted_reverse_mset)
qed

lemma leaderboard_example:
  "py_sorted_reverse leaderboard_sort_key [(''a'', 1), (''b'', 2), (''c'', 1)] =
     [(''b'', 2), (''c'', 1), (''a'', 1)]"
  by (simp add: py_sorted_reverse_def leaderboard_sort_key_def less_eq_prod_def)


theorem leaderboard_ranking_witness:
  "[(''a'', 1), (''b'', 2), (''c'', 1::real)] \<noteq> []
   \<and> map store_value (dht (publish_leaderboard 0 (Some [(''a'', 1), (''b'', 2), (''c'', 1)])
        (init_publishing_trainer coordinator_node [] []))) =
       [LeaderboardValue [(''b'', 2), (''c'', 1), (''a'', 1)]]
   \<and> sorted_wrt ranked_before [(''b'', 2), (''c'', 1), (''a'', 1::real)]"
proof -
  have ne: "[(''a'', 1), (''b'', 2), (''c'', 1::real)] \<noteq> []" by simp
  note th = leaderboard_ranking [OF ne, of 0 "init_publishing_trainer coordinator_node [] []"]
  from th have a: "dht (publish_leaderboard 0 (Some [(''a'', 1), (''b'', 2), (''c'', 1)])
        (init_publishing_trainer coordinator_node [] [])) =
      dht (init_publishing_trainer coordinator_node [] []) @
           [\<lparr>store_key = leaderboard_key (round_num (node (init_publishing_trainer coordinator_node [] [])))
                (stage_num (node (init_publishing_trainer coordinator_node [] []))),
             store_subkey = None,
             store_value = LeaderboardValue (py_sorted_reverse leaderboard_sort_key [(''a'', 1), (''b'', 2), (''c'', 1)]),
             expiration_time = 0 + out_expiration (node (init_publishing_trainer coordinator_node [] []))\<rparr>]"
    by (rule conjunct1)
  from th have s: "sorted_wrt ranked_before
      (py_sorted_reverse leaderboard_sort_key [(''a'', 1), (''b'', 2), (''c'', 1)])"
    by (rule conjunct2 [THEN conjunct2, THEN conjunct1])
  from s have s': "sorted_wrt ranked_before [(''b'', 2), (''c'', 1), (''a'', 1::real)]"
    by (simp only: leaderboard_example)
  have "map store_value (dht (publish_leaderboard 0 (Some [(''a'', 1), (''b'', 2), (''c'', 1)])
        (init_publishing_trainer coordinator_node [] []))) =
       [LeaderboardValue [(''b'', 2), (''c'', 1), (''a'', 1)]]"
    unfolding a leaderboard_example by (simp add: init_publishing_trainer_def)
  with ne s' show ?thesis by blast
qed

subsection \<open>One publication\<close>

lemma has_questionE:
  assumes "has_question n"
  obtains d q where "outputs n = Some d" "d \<noteq> []" "map_of d ''question'' = Some q"
  using assms by (auto simp: has_question_def split: option.splits)

lemma publish_without_question:
  assumes "\<not> has_question (node t)"
  shows "publish_outputs_and_rewards md5 time_now dht_time t =
           t\<lparr>logger := logger t @
               [(Warning, ''node.outputs not available or question key missing'')]\<rparr>"
proof (cases "outputs (node t)")
  case None
  then show ?thesis by (simp add: publish_outputs_and_rewards_def)
next
  case (Some d)
  show ?thesis
  proof (cases d)
    case Nil
    with Some show ?thesis by (simp add: publish_outputs_and_rewards_def)
  next
    case (Cons o1 os)
    with Some assms have "map_of (o1 # os) ''question'' = None"
      by (simp add: has_question_def)
    with Some Cons show ?thesis
      by (simp add: publish_outputs_and_rewards_def del: map_of.simps)
  qed
qed

lemma publish_with_question:
  assumes o: "outputs (node t) = Some d" and d: "d \<noteq> []"
    and q: "map_of d ''question'' = Some question"
  shows "publish_outputs_and_rewards md5 time_now dht_time t =
     (let total = stage_rewards t +
                    (case reward_seq (rewards (node t)) of Some rs \<Rightarrow> sum_list rs | None \<Rightarrow> 0)
      in t\<lparr>node := put_stage_outputs (round_num (node t)) (stage_num (node t)) (md5 question)
                     (OutputsValue time_now d) (node t),
            dht := dht t @
              [\<lparr>store_key = node_outputs_key (key (node t)), store_subkey = Some (md5 question),
                store_value = OutputsValue time_now d,
                expiration_time = dht_time + out_expiration (node t)\<rparr>,
               \<lparr>store_key = rewards_key (round_num (node t)) (stage_num (node t)),
                store_subkey = Some (key (node t)), store_value = RewardValue total,
                expiration_time = dht_time + out_expiration (node t)\<rparr>],
            logger := logger t @
              (case reward_seq (rewards (node t)) of
                 Some rs \<Rightarrow> []
               | None \<Rightarrow> [(Warning, ''node.rewards is not available or not iterable'')]),
            stage_rewards := total\<rparr>)"
proof -
  obtain o1 os where c: "d = o1 # os" using d by (cases d) auto
  show ?thesis
    using o q unfolding c
    by (cases "rewards (node t)")
       (simp_all add: publish_outputs_and_rewards_def put_stage_outputs_def Let_def
          del: map_of.simps)
qed

subsection \<open>The running stage reward\<close>

lemma publish_stage_rewards:
  "stage_rewards (publish_outputs_and_rewards md5 time_now dht_time t) =
     stage_rewards t +
       (if has_question (node t)
        then (case reward_seq (rewards (node t)) of Some rs \<Rightarrow> sum_list rs | None \<Rightarrow> 0)
        else 0)"
proof (cases "has_question (node t)")
  case True
  then obtain d q where "outputs (node t) = Some d" "d \<noteq> []" "map_of d ''question'' = Some q"
    by (rule has_questionE)
  then show ?thesis using True
    by (simp add: publish_with_question Let_def)
next
  case False
  then show ?thesis by (simp add: publish_without_question)
qed

lemma publish_leaderboard_stage_rewards:
  "stage_rewards (publish_leaderboard dht_time cr t) = stage_rewards t"
  by (simp add: publish_leaderboard_def Let_def split: option.splits list.splits)

lemma compute_loss_stage_rewards:
  "stage_rewards (compute_loss md5 time_now dht_time cr t) = stage_rewards t + reward_increment t"
  by (simp add: compute_loss_def Let_def publish_leaderboard_stage_rewards
        publish_stage_rewards reward_increment_def)

lemma training_step_stage_rewards:
  "stage_rewards (training_step md5 i t) =
     stage_rewards t +
       reward_increment (t\<lparr>node := (node t)\<lparr>outputs := in_outputs i, rewards := in_rewards i\<rparr>,
                          global_step := in_global_step i\<rparr>)"
  by (simp add: training_step_def compute_loss_stage_rewards)

lemma reward_increment_nonneg:
  "nonneg_rewards (rewards (node t)) \<Longrightarrow> 0 \<le> reward_increment t"
  by (simp add: reward_increment_def nonneg_rewards_def split: option.splits)

lemma training_steps_mono:
  "list_all (\<lambda>i. nonneg_rewards (in_rewards i)) steps \<Longrightarrow>
     stage_rewards t \<le> stage_rewards (training_steps md5 steps t)"
proof (induction steps arbitrary: t)
  case Nil
  then show ?case by simp
next
  case (Cons i steps)
  let ?t = "t\<lparr>node := (node t)\<lparr>outputs := in_outputs i, rewards := in_rewards i\<rparr>,
               global_step := in_global_step i\<rparr>"
  from Cons.prems have "nonneg_rewards (rewards (node ?t))" by simp
  then have "0 \<le> reward_increment ?t" by (rule reward_increment_nonneg)
  then have "stage_rewards t \<le> stage_rewards (training_step md5 i t)"
    by (simp add: training_step_stage_rewards)
  also have "\<dots> \<le> stage_rewards (training_steps md5 steps (training_step md5 i t))"
    using Cons.prems by (intro Cons.IH) simp
  finally show ?case by simp
qed

text \<open>
  Claim C4, as amended. \<open>stage_rewards\<close> is zero at construction; publishing the
  leaderboard leaves it alone, and a call of \<^verbatim>\<open>compute_loss\<close> adds to it the sum of
  \<^verbatim>\<open>node.rewards\<close> when the gate opens, the outputs hold a question and the rewards are a
  list or a tuple, and nothing otherwise. Across a run of training steps each of which
  presents rewards of non-negative sum, it does not decrease.
\<close>

theorem stage_rewards_monotone:
  "stage_rewards (init_publishing_trainer n d l) = 0
   \<and> stage_rewards (publish_leaderboard dht_time cr t) = stage_rewards t
   \<and> stage_rewards (compute_loss md5 time_now dht_time cr t) = stage_rewards t + reward_increment t
   \<and> (list_all (\<lambda>i. nonneg_rewards (in_rewards i)) steps \<longrightarrow>
        stage_rewards t \<le> stage_rewards (training_steps md5 steps t))"
  using training_steps_mono [of steps t md5]
  by (simp add: init_publishing_trainer_def publish_leaderboard_stage_rewards
        compute_loss_stage_rewards)

lemma step_with_value:
  "stage_rewards (training_steps (\<lambda>q. q) [step_with rs]
      (init_publishing_trainer follower_node [] [])) = sum_list rs"
  by (simp add: training_step_stage_rewards reward_increment_def step_with_def
        init_publishing_trainer_def publisher_fires_def CADENCE_OF_UPDATE_STEPS_def
        has_question_def)

theorem stage_rewards_monotone_witness:
  "list_all (\<lambda>i. nonneg_rewards (in_rewards i)) [step_with [1, 2]]
   \<and> stage_rewards (init_publishing_trainer follower_node [] []) \<le>
       stage_rewards (training_steps (\<lambda>q. q) [step_with [1, 2]]
         (init_publishing_trainer follower_node [] []))"
proof -
  have h: "list_all (\<lambda>i. nonneg_rewards (in_rewards i)) [step_with [1, 2]]"
    by (simp add: step_with_def nonneg_rewards_def)
  from stage_rewards_monotone [of follower_node "[]" "[]" 0 None
         "init_publishing_trainer follower_node [] []" "\<lambda>q. q" 0 "[step_with [1, 2]]"]
  have "list_all (\<lambda>i. nonneg_rewards (in_rewards i)) [step_with [1, 2]] \<longrightarrow>
        stage_rewards (init_publishing_trainer follower_node [] []) \<le>
        stage_rewards (training_steps (\<lambda>q. q) [step_with [1, 2]]
          (init_publishing_trainer follower_node [] []))"
    by (rule conjunct2 [THEN conjunct2, THEN conjunct2])
  with h show ?thesis by blast
qed

text \<open>
  Claim C4 as stated fails: a step that presents the rewards \<open>[-3]\<close> lowers the total
  that the step before it had reached.
\<close>

theorem stage_rewards_decrease:
  "stage_rewards (training_steps (\<lambda>q. q) [step_with [1], step_with [-3]]
      (init_publishing_trainer follower_node [] []))
   < stage_rewards (training_steps (\<lambda>q. q) [step_with [1]]
      (init_publishing_trainer follower_node [] []))"
  by (simp add: training_step_stage_rewards reward_increment_def step_with_def
        init_publishing_trainer_def publisher_fires_def CADENCE_OF_UPDATE_STEPS_def
        has_question_def)

end
